theory Spec2Isabelle
  imports Complex_Main
begin

section \<open>Waveform generator: sampling, modulation and ASCII rendering\<close>

text \<open>
  A shallow embedding of the computational kernel of \<^verbatim>\<open>code_4.c\<close>.

  Number model. C \<^verbatim>\<open>float\<close> is read as \<^typ>\<open>real\<close>: \<^verbatim>\<open>sinf\<close> is \<^const>\<open>sin\<close>,
  the macro \<^verbatim>\<open>PI\<close> is \<^const>\<open>pi\<close>, the operators are the exact field operations.
  Rounding, overflow to infinity, subnormals and NaN are outside this model; every
  statement below is about the exact arithmetic the source's formulas denote.
  C \<^verbatim>\<open>int\<close> is read as \<^typ>\<open>int\<close>; the sizes used (8, 21, 100) are far from
  the 32-bit bounds.
\<close>

subsection \<open>Constants and global state\<close>

definition DEFAULT_SAMPLES :: nat where "DEFAULT_SAMPLES = 100"
definition TABLE_SAMPLES :: nat where "TABLE_SAMPLES = 8"
definition ASCII_ROWS :: int where "ASCII_ROWS = 21"

text \<open>The file-level \<^verbatim>\<open>static float\<close> variables, one field each.\<close>

record waveform_state =
  fre_sin :: real
  fre_squ :: real
  fre_saw :: real
  fre_tra :: real
  amp_sin :: real
  amp_squ :: real
  amp_saw :: real
  amp_tra :: real
  phase_sin :: real
  duty_cycle :: real
  slope :: real

text \<open>The initialisers of the static variables.\<close>

definition initial_state :: waveform_state where
  "initial_state =
     \<lparr>fre_sin = 1, fre_squ = 1, fre_saw = 1, fre_tra = 1,
      amp_sin = 1, amp_squ = 1, amp_saw = 1, amp_tra = 1,
      phase_sin = 0, duty_cycle = 0.5, slope = 1\<rparr>"

subsection \<open>C library and conversion primitives\<close>

text \<open>
  The conversion \<^verbatim>\<open>(int)x\<close> of a float discards the fractional part (towards zero).
  Both casts in the source are applied to \<open>frac * (rows - 1) + 0.5\<close> with \<open>frac\<close> between
  0 and 1, so the value always fits an \<^verbatim>\<open>int\<close>.
\<close>

definition int_cast :: "real \<Rightarrow> int" where
  "int_cast x = (if 0 \<le> x then \<lfloor>x\<rfloor> else \<lceil>x\<rceil>)"

text \<open>
  \<^verbatim>\<open>fmodf(x, y)\<close> is \<open>x - n * y\<close> with \<open>n\<close> the quotient \<open>x / y\<close> truncated towards
  zero, so the result has the sign of \<open>x\<close>. Every call in the source has \<open>y = 1 / f\<close>
  behind a guard \<open>f > 0\<close>, or \<open>y = 1\<close>; the case \<open>y = 0\<close> (NaN in C) is never reached.
\<close>

definition fmodf :: "real \<Rightarrow> real \<Rightarrow> real" where
  "fmodf x y = x - real_of_int (int_cast (x / y)) * y"

text \<open>
  A float quotient whose divisor may be zero. In C \<^verbatim>\<open>x / 0.0f\<close> is an infinity or a
  NaN, which is no real number: the quotient has no value here. (The field division
  of HOL would silently give \<open>x / 0 = 0\<close>.) The source has one division whose divisor is
  user data that may legally be zero, the normalising quotient \<^verbatim>\<open>xt / amp_base\<close> of the
  modulation loops; it is written with \<open>float_div\<close>. Every other divisor of the source
  is a positive constant or is made nonzero by a test just before it.
\<close>

definition float_div :: "real \<Rightarrow> real \<Rightarrow> real option" where
  "float_div x y = (if y = 0 then None else Some (x / y))"

subsection \<open>The waveform sampler\<close>

definition sample_base_waveform :: "waveform_state \<Rightarrow> int \<Rightarrow> real \<Rightarrow> real" where
  "sample_base_waveform st waveform_type t =
     (if waveform_type = 1 then
        amp_sin st * sin (2 * pi * fre_sin st * t + phase_sin st)
      else if waveform_type = 2 then
        (if fre_squ st \<le> 0 then 0
         else let T = 1 / fre_squ st;
                  pos = fmodf t T / T
              in if pos < duty_cycle st then amp_squ st else - amp_squ st)
      else if waveform_type = 3 then
        (if fre_tra st \<le> 0 then 0
         else let T = 1 / fre_tra st;
                  pos = fmodf t T / T
              in if pos < 0.5 then - amp_tra st + 4 * amp_tra st * pos
                 else 3 * amp_tra st - 4 * amp_tra st * pos)
      else if waveform_type = 4 then
        (if fre_saw st \<le> 0 then 0
         else let T = 1 / fre_saw st;
                  frac = fmodf t T / T
              in - amp_saw st + 2 * amp_saw st * frac)
      else 0)"

subsection \<open>The primary (unmodulated) displays\<close>

text \<open>
  Each \<^verbatim>\<open>*_plot\<close> routine first refuses a frequency \<open>\<le> 0\<close> (it prints
  \<^verbatim>\<open>Frequency must be > 0!\<close> and returns), then computes the 8 table rows \<open>(t, y)\<close>
  and the 100 plot values \<^verbatim>\<open>yval[i]\<close>. The printing of the table, the rendering of
  \<^verbatim>\<open>yval\<close> and the modulation prompt that follow are not part of the definitions.

  \<open>square_plot\<close> returns the table rows and the plot values.

  \<open>sine_plot\<close> is followed more closely. After the table loop it allocates the plot
  buffer; \<open>malloc_ok\<close> says whether that \<^verbatim>\<open>malloc\<close> succeeds, and when it does not the
  routine reports it with \<^verbatim>\<open>perror\<close> and returns with only the table printed. Each
  iteration of its plot loop is kept as the pair \<open>(t, y)\<close> of the loop's two locals:
  \<open>t\<close> is the time at which the sample is taken, \<open>y\<close> is what is stored in
  \<^verbatim>\<open>yval[i]\<close>; \<open>sine_yval\<close> is the buffer handed to the renderer.
\<close>

datatype plot_error =
    Frequency_not_positive
  | Malloc_yval_failed "(real \<times> real) list"

definition sine_plot ::
  "bool \<Rightarrow> waveform_state \<Rightarrow> plot_error + ((real \<times> real) list \<times> (real \<times> real) list)" where
  "sine_plot malloc_ok st =
     (if fre_sin st \<le> 0 then Inl Frequency_not_positive
      else
        let period = 1 / fre_sin st;
            table_step = period / real TABLE_SAMPLES;
            table = map (\<lambda>i. let t = real i * table_step;
                                  y = amp_sin st * sin (2 * pi * fre_sin st * t + phase_sin st)
                              in (t, y)) [0..<TABLE_SAMPLES];
            plot_step = period / real DEFAULT_SAMPLES
        in if \<not> malloc_ok then Inl (Malloc_yval_failed table)
           else
             let time_shift =
                   (if fre_sin st \<noteq> 0 then phase_sin st / (2 * pi * fre_sin st) else 0);
                 plot = map (\<lambda>i. let t = real i * plot_step + time_shift;
                                     y = amp_sin st * sin (2 * pi * fre_sin st * t)
                                 in (t, y)) [0..<DEFAULT_SAMPLES]
             in Inr (table, plot))"

definition sine_yval :: "(real \<times> real) list \<Rightarrow> real list" where
  "sine_yval plot = map snd plot"

definition square_plot :: "waveform_state \<Rightarrow> plot_error + ((real \<times> real) list \<times> real list)" where
  "square_plot st =
     (if fre_squ st \<le> 0 then Inl Frequency_not_positive
      else
        let period = 1 / fre_squ st;
            table_step = period / real TABLE_SAMPLES;
            table = map (\<lambda>i. let t = real i * table_step;
                                  y = sample_base_waveform st 2 t
                              in (t, y)) [0..<TABLE_SAMPLES];
            plot_step = period / real DEFAULT_SAMPLES;
            yval = map (\<lambda>i. let t = real i * plot_step
                             in sample_base_waveform st 2 t) [0..<DEFAULT_SAMPLES]
        in Inr (table, yval))"

subsection \<open>Modulation\<close>

text \<open>
  The three routines \<^verbatim>\<open>run_AM\<close>, \<^verbatim>\<open>run_FM\<close> and \<^verbatim>\<open>run_PWM\<close> each contain two loops
  (table and plot) whose bodies start with the same statements: the base sample \<^verbatim>\<open>xt\<close>,
  the switch that picks \<^verbatim>\<open>amp_base\<close>, and the guarded quotient \<^verbatim>\<open>xnorm\<close>. These are
  written once here; \<open>period_of\<close> is the initialiser of the local \<^verbatim>\<open>period\<close>.

  \<open>xnorm\<close> is \<open>None\<close> where its quotient would be formed with a zero divisor, and a
  loop body whose \<open>xnorm\<close> has no value has no value either; a table row or plot value
  \<open>Some y\<close> is a sample that is a real number.
\<close>

definition amp_base :: "waveform_state \<Rightarrow> int \<Rightarrow> real" where
  "amp_base st waveform_type =
     (if waveform_type = 1 then amp_sin st
      else if waveform_type = 2 then amp_squ st
      else if waveform_type = 3 then amp_tra st
      else if waveform_type = 4 then amp_saw st
      else 1)"

definition xnorm :: "waveform_state \<Rightarrow> int \<Rightarrow> real \<Rightarrow> real option" where
  "xnorm st waveform_type t =
     (let xt = sample_base_waveform st waveform_type t
      in if amp_base st waveform_type \<noteq> 0 then float_div xt (amp_base st waveform_type)
         else Some 0)"

definition period_of :: "real \<Rightarrow> real" where
  "period_of fc = (if fc > 0 then 1 / fc else 1)"


definition FM_body ::
  "waveform_state \<Rightarrow> int \<Rightarrow> real \<Rightarrow> real \<Rightarrow> real \<Rightarrow> real \<Rightarrow> real option" where
  "FM_body st waveform_type Ac fc beta t =
     (case xnorm st waveform_type t of
        None \<Rightarrow> None
      | Some xn \<Rightarrow>
          let inst_phase = 2 * pi * fc * t + beta * xn
          in Some (Ac * sin inst_phase))"

definition PWM_body ::
  "waveform_state \<Rightarrow> int \<Rightarrow> real \<Rightarrow> real \<Rightarrow> real \<Rightarrow> real option" where
  "PWM_body st waveform_type fpwm Ac t =
     (case xnorm st waveform_type t of
        None \<Rightarrow> None
      | Some xn \<Rightarrow>
          let period = period_of fpwm;
              carrier_frac = fmodf t period / period;
              tri = - 1 + 2 * carrier_frac
          in Some (if xn > tri then Ac else - Ac))"


definition run_FM ::
  "waveform_state \<Rightarrow> int \<Rightarrow> real \<Rightarrow> real \<Rightarrow> real \<Rightarrow>
     (real \<times> real option) list \<times> real option list \<times> real" where
  "run_FM st waveform_type Ac fc beta =
     (let period = period_of fc;
          table_step = period / real TABLE_SAMPLES;
          table = map (\<lambda>i. let t = real i * table_step
                            in (t, FM_body st waveform_type Ac fc beta t)) [0..<TABLE_SAMPLES];
          plot_step = period / real DEFAULT_SAMPLES;
          y = map (\<lambda>i. let t = real i * plot_step
                        in FM_body st waveform_type Ac fc beta t) [0..<DEFAULT_SAMPLES]
      in (table, y, Ac))"

definition run_PWM ::
  "waveform_state \<Rightarrow> int \<Rightarrow> real \<Rightarrow> real \<Rightarrow>
     (real \<times> real option) list \<times> real option list \<times> real" where
  "run_PWM st waveform_type fpwm Ac =
     (let period = period_of fpwm;
          table_step = period / real TABLE_SAMPLES;
          table = map (\<lambda>i. let t = real i * table_step
                            in (t, PWM_body st waveform_type fpwm Ac t)) [0..<TABLE_SAMPLES];
          plot_step = period / real DEFAULT_SAMPLES;
          y = map (\<lambda>i. let t = real i * plot_step
                        in PWM_body st waveform_type fpwm Ac t) [0..<DEFAULT_SAMPLES]
      in (table, y, Ac))"

subsection \<open>The ASCII renderer\<close>

text \<open>
  The canvas is a list of \<open>rows\<close> strings of \<open>cols\<close> characters (the terminating NUL of
  each C row is not a character of the line). A cell is written by
  \<^verbatim>\<open>canvas[row][c] = ch\<close>.
\<close>

definition blank_canvas :: "int \<Rightarrow> int \<Rightarrow> string list" where
  "blank_canvas rows cols = replicate (nat rows) (replicate (nat cols) CHR '' '')"

definition set_cell :: "string list \<Rightarrow> nat \<Rightarrow> nat \<Rightarrow> char \<Rightarrow> string list" where
  "set_cell canvas r c ch = canvas[r := (canvas ! r)[c := ch]]"

text \<open>The row of one value: the body of the column loop up to the store.\<close>

definition value_row :: "int \<Rightarrow> real \<Rightarrow> real \<Rightarrow> int" where
  "value_row rows amp y =
     (let frac0 = (if amp \<noteq> 0 then (amp - y) / (2 * amp) else 0.5);
          frac1 = (if frac0 < 0 then 0 else frac0);
          frac = (if frac1 > 1 then 1 else frac1);
          row0 = int_cast (frac * real_of_int (rows - 1) + 0.5);
          row1 = (if row0 < 0 then 0 else row0)
      in if row1 \<ge> rows then rows - 1 else row1)"

text \<open>The axis row: the initialiser of \<^verbatim>\<open>mid_row\<close> and its two clamps.\<close>

definition mid_row :: "int \<Rightarrow> real \<Rightarrow> int" where
  "mid_row rows amp =
     (let m0 = int_cast (((amp - 0) / (2 * (if amp = 0 then 1 else amp))) * real_of_int (rows - 1) + 0.5);
          m1 = (if m0 < 0 then 0 else m0)
      in if m1 \<ge> rows then rows - 1 else m1)"

text \<open>The column loop, from column \<open>c\<close> on, over the values still to be drawn.\<close>

fun plot_columns :: "int \<Rightarrow> real \<Rightarrow> real list \<Rightarrow> nat \<Rightarrow> string list \<Rightarrow> string list" where
  "plot_columns rows amp [] c canvas = canvas"
| "plot_columns rows amp (y # ys) c canvas =
     plot_columns rows amp ys (Suc c) (set_cell canvas (nat (value_row rows amp y)) c CHR ''*'')"

text \<open>The axis loop: every cell of the axis row that is still blank becomes a dash.\<close>

definition draw_axis :: "nat \<Rightarrow> string list \<Rightarrow> string list" where
  "draw_axis r canvas =
     canvas[r := map (\<lambda>ch. if ch = CHR '' '' then CHR ''-'' else ch) (canvas ! r)]"

text \<open>
  What one call does, as seen from outside: it returns without any output, it reports a
  failed allocation with \<^verbatim>\<open>perror\<close> and returns, or it prints the rows of the canvas.
  \<open>yvals\<close> is \<open>None\<close> for the null pointer. \<open>malloc_ok k\<close> says whether the \<open>k\<close>-th
  \<^verbatim>\<open>malloc\<close> of the call succeeds (0 for the row table, \<open>r + 1\<close> for row \<open>r\<close>). Reading
  \<^verbatim>\<open>yvals[c]\<close> beyond the values supplied is undefined in C and is a result of its own.
\<close>

datatype render_result =
    Returned_silently
  | Perror string
  | Read_past_end
  | Printed "string list"

definition print_ascii_from_yvals ::
  "(nat \<Rightarrow> bool) \<Rightarrow> real list option \<Rightarrow> int \<Rightarrow> int \<Rightarrow> real \<Rightarrow> render_result" where
  "print_ascii_from_yvals malloc_ok yvals cols rows amp =
     (case yvals of
        None \<Rightarrow> Returned_silently
      | Some ys \<Rightarrow>
          if cols \<le> 0 \<or> rows \<le> 0 then Returned_silently
          else if \<not> malloc_ok 0 then Perror ''malloc canvas''
          else if \<not> list_all (\<lambda>r. malloc_ok (Suc r)) [0..<nat rows] then Perror ''malloc canvas[r]''
          else if length ys < nat cols then Read_past_end
          else Printed (draw_axis (nat (mid_row rows amp))
                          (plot_columns rows amp (take (nat cols) ys) 0 (blank_canvas rows cols))))"

section \<open>Properties of the sampler\<close>

lemma fmodf_small: "0 \<le> x \<Longrightarrow> x < y \<Longrightarrow> fmodf x y = x"
proof -
  assume a: "0 \<le> x" and b: "x < y"
  have "0 \<le> x / y" and "x / y < 1" using a b by simp_all
  then have "\<lfloor>x / y\<rfloor> = 0" by linarith
  with \<open>0 \<le> x / y\<close> show ?thesis by (simp add: fmodf_def int_cast_def)
qed

text \<open>
  Claim C10. For every \<open>waveform_type\<close> outside \<open>{1, 2, 3, 4}\<close> and every time \<open>t\<close>,
  \<open>sample_base_waveform\<close> returns exactly 0: the \<^verbatim>\<open>default\<close> branch of the switch
  makes the dispatch total and an unknown kind is the flat zero signal.
\<close>

theorem sample_unknown_kind_zero:
  "waveform_type \<notin> {1, 2, 3, 4} \<Longrightarrow> sample_base_waveform st waveform_type t = 0"
  by (simp add: sample_base_waveform_def)

theorem sample_unknown_kind_zero_witness:
  "(7::int) \<notin> {1, 2, 3, 4} \<and> sample_base_waveform initial_state 7 (1 / 3) = 0"
  using sample_unknown_kind_zero [of 7 initial_state "1 / 3"] by simp


text \<open>The \<open>i\<close>-th of \<open>n\<close> sample times of one period lies at the fraction \<open>i / n\<close> of it.\<close>

lemma sample_time_pos:
  assumes "0 < f" "i < n"
  shows "fmodf (real i * ((1 / f) / real n)) (1 / f) / (1 / f) = real i / real n"
proof -
  have "0 \<le> real i * ((1 / f) / real n)" using assms by simp
  moreover have "real i * ((1 / f) / real n) < 1 / f" using assms by (simp add: field_simps)
  ultimately have "fmodf (real i * ((1 / f) / real n)) (1 / f) = real i * ((1 / f) / real n)"
    by (rule fmodf_small)
  then show ?thesis using assms by simp
qed

lemma upt_8: "[0..<8] = [0, 1, 2, 3, 4, 5, 6, 7::nat]"
  by (simp add: upt_rec)

text \<open>
  Claim C1, as amended. The claim fails for Sine: case 1 of the switch has no frequency
  test. What holds: for Square, Triangle and Sawtooth (kinds 2, 3, 4) and every time
  \<open>t\<close>, \<open>sample_base_waveform\<close> returns 0 when that kind's frequency is \<open>\<le> 0\<close>; for
  Sine (kind 1) it returns \<open>amp_sin * sin (2 * pi * fre_sin * t + phase_sin)\<close> whatever
  the frequency is.
\<close>

theorem sample_nonpositive_frequency:
  "(waveform_type = 2 \<and> fre_squ st \<le> 0 \<or>
    waveform_type = 3 \<and> fre_tra st \<le> 0 \<or>
    waveform_type = 4 \<and> fre_saw st \<le> 0
      \<longrightarrow> sample_base_waveform st waveform_type t = 0) \<and>
   sample_base_waveform st 1 t = amp_sin st * sin (2 * pi * fre_sin st * t + phase_sin st)"
  by (auto simp add: sample_base_waveform_def)

theorem sample_nonpositive_frequency_witness:
  "fre_tra (initial_state\<lparr>fre_tra := - 2\<rparr>) \<le> 0 \<and>
   sample_base_waveform (initial_state\<lparr>fre_tra := - 2\<rparr>) 3 (1 / 3) = 0 \<and>
   sample_base_waveform (initial_state\<lparr>fre_tra := - 2\<rparr>) 1 (1 / 4) = 1"
  using sample_nonpositive_frequency [of 3 "initial_state\<lparr>fre_tra := - 2\<rparr>" "1 / 3"]
    sample_nonpositive_frequency [of 3 "initial_state\<lparr>fre_tra := - 2\<rparr>" "1 / 4"]
  by (simp add: initial_state_def)

text \<open>
  The claim C1 as stated is false: with \<open>fre_sin = 0\<close> and \<open>phase_sin = pi / 2\<close> (amplitude
  1) the Sine sample at \<open>t = 0\<close> is \<open>sin (pi / 2) = 1\<close>, not 0.
\<close>

theorem sine_nonpositive_frequency_counterexample:
  "fre_sin (initial_state\<lparr>fre_sin := 0, phase_sin := pi / 2\<rparr>) \<le> 0 \<and>
   sample_base_waveform (initial_state\<lparr>fre_sin := 0, phase_sin := pi / 2\<rparr>) 1 0 \<noteq> 0"
  by (simp add: sample_base_waveform_def initial_state_def)

lemma square_sample:
  assumes "0 < fre_squ st" "i < n"
  shows "sample_base_waveform st 2 (real i * ((1 / fre_squ st) / real n)) =
      (if real i / real n < duty_cycle st then amp_squ st else - amp_squ st)"
  using assms sample_time_pos [OF assms] by (simp add: sample_base_waveform_def Let_def)

text \<open>
  Claim C4. For the square wave with \<open>duty_cycle = 0.5\<close>, frequency \<open>f > 0\<close> and
  amplitude \<open>\<noteq> 0\<close>, \<open>square_plot\<close> produces the 8 table rows at \<open>t\<^sub>i = i * (1 / f) / 8\<close>;
  row \<open>i\<close> has \<open>pos = i / 8\<close>; rows 0 to 3 (those with \<open>pos < 0.5\<close>) hold \<open>+amplitude\<close>
  and rows 4 to 7 hold \<open>-amplitude\<close>, so exactly 4 samples are \<open>+amplitude\<close> and exactly 4
  are \<open>-amplitude\<close>; the boundary row 4, at \<open>pos = 0.5\<close>, is on the \<open>-amplitude\<close> side.
\<close>

theorem square_table_half_duty:
  assumes "0 < fre_squ st" "duty_cycle st = 0.5" "amp_squ st \<noteq> 0"
  shows "\<exists>table yval. square_plot st = Inr (table, yval) \<and>
      table = map (\<lambda>i. (real i * ((1 / fre_squ st) / 8),
                         if real i / 8 < 0.5 then amp_squ st else - amp_squ st)) [0..<8] \<and>
      (\<forall>i<8. fmodf (fst (table ! i)) (1 / fre_squ st) / (1 / fre_squ st) = real i / 8) \<and>
      length (filter (\<lambda>(t, y). y = amp_squ st) table) = 4 \<and>
      length (filter (\<lambda>(t, y). y = - amp_squ st) table) = 4 \<and>
      fmodf (fst (table ! 4)) (1 / fre_squ st) / (1 / fre_squ st) = 0.5 \<and>
      snd (table ! 4) = - amp_squ st"
proof -
  let ?a = "amp_squ st" and ?T = "1 / fre_squ st"
  let ?table = "map (\<lambda>i. (real i * (?T / 8), if real i / 8 < 0.5 then ?a else - ?a)) [0..<8]"
  have row: "sample_base_waveform st 2 (real i * (?T / 8)) = (if real i / 8 < 0.5 then ?a else - ?a)"
    if "i < 8" for i :: nat
  proof -
    have "sample_base_waveform st 2 (real i * (?T / real 8)) =
        (if real i / real 8 < duty_cycle st then ?a else - ?a)"
      using assms(1) that by (rule square_sample)
    then show ?thesis using assms(2) by simp
  qed
  have tab: "map (\<lambda>i. let t = real i * (?T / 8); y = sample_base_waveform st 2 t in (t, y)) [0..<8]
      = ?table"
  proof (rule map_cong [OF refl])
    fix i :: nat assume "i \<in> set [0..<8]"
    then have "i < 8" by simp
    then show "(let t = real i * (?T / 8); y = sample_base_waveform st 2 t in (t, y)) =
        (real i * (?T / 8), if real i / 8 < 0.5 then ?a else - ?a)"
      unfolding Let_def by (simp only: row)
  qed
  have pos: "fmodf (fst (?table ! i)) ?T / ?T = real i / 8" if "i < 8" for i :: nat
  proof -
    from that have "fst (?table ! i) = real i * (?T / real 8)" by simp
    then show ?thesis using sample_time_pos [OF assms(1) that] by simp
  qed
  have "\<exists>yval. square_plot st = Inr (?table, yval)"
    using assms(1) tab by (simp add: square_plot_def TABLE_SAMPLES_def Let_def)
  moreover have "\<forall>i<8. fmodf (fst (?table ! i)) ?T / ?T = real i / 8"
    using pos by blast
  moreover have "length (filter (\<lambda>(t, y). y = ?a) ?table) = 4"
    using assms(3) by (simp add: upt_8)
  moreover have "length (filter (\<lambda>(t, y). y = - ?a) ?table) = 4"
    using assms(3) by (simp add: upt_8)
  moreover have "fmodf (fst (?table ! 4)) ?T / ?T = 0.5"
    using pos [of 4] by simp
  moreover have "snd (?table ! 4) = - ?a"
    by (simp add: upt_8)
  ultimately show ?thesis by blast
qed

theorem square_table_half_duty_witness:
  "\<exists>yval. square_plot initial_state =
     Inr ([(0, 1), (1 / 8, 1), (2 / 8, 1), (3 / 8, 1),
           (4 / 8, - 1), (5 / 8, - 1), (6 / 8, - 1), (7 / 8, - 1)], yval)"
proof -
  have "0 < fre_squ initial_state" "duty_cycle initial_state = 0.5" "amp_squ initial_state \<noteq> 0"
    by (simp_all add: initial_state_def)
  from square_table_half_duty [OF this]
  show ?thesis by (simp add: upt_8 initial_state_def)
qed

lemma fmodf_second_period:
  assumes "0 < y" "y \<le> x" "x < 2 * y" shows "fmodf x y = x - y"
proof -
  have "1 \<le> x / y" and "x / y < 2" using assms by (simp_all add: field_simps)
  then have "\<lfloor>x / y\<rfloor> = 1" by linarith
  with \<open>1 \<le> x / y\<close> show ?thesis by (simp add: fmodf_def int_cast_def)
qed

lemma tri_formula:
  assumes "0 < fre_tra st"
  shows "sample_base_waveform st 3 t =
    (if fmodf t (1 / fre_tra st) / (1 / fre_tra st) < 1 / 2
     then - amp_tra st + 4 * amp_tra st * (fmodf t (1 / fre_tra st) / (1 / fre_tra st))
     else 3 * amp_tra st - 4 * amp_tra st * (fmodf t (1 / fre_tra st) / (1 / fre_tra st)))"
  using assms by (simp add: sample_base_waveform_def Let_def)

lemma tri_of_pos:
  assumes "0 < fre_tra st" "fmodf t (1 / fre_tra st) / (1 / fre_tra st) = p"
  shows "sample_base_waveform st 3 t =
    (if p < 1 / 2 then - amp_tra st + 4 * amp_tra st * p else 3 * amp_tra st - 4 * amp_tra st * p)"
  using tri_formula [OF assms(1), of t] by (simp only: assms(2))

lemma tri_falling:
  assumes f: "0 < fre_tra st" and t: "1 / fre_tra st / 2 \<le> t" "t < 1 / fre_tra st"
  shows "sample_base_waveform st 3 t = 3 * amp_tra st - 4 * amp_tra st * (t * fre_tra st)"
proof -
  have "0 < 1 / fre_tra st / 2" using f by simp
  with t(1) have "0 \<le> t" by linarith
  then have "fmodf t (1 / fre_tra st) = t" using t(2) by (rule fmodf_small)
  then have pos: "fmodf t (1 / fre_tra st) / (1 / fre_tra st) = t * fre_tra st" by simp
  have "\<not> t * fre_tra st < 1 / 2" using f t(1) by (simp add: field_simps)
  with tri_formula [OF f, of t] show ?thesis by (simp only: pos if_False)
qed

lemma tri_rising:
  assumes f: "0 < fre_tra st" and t: "0 \<le> t" "t < 1 / fre_tra st / 2"
  shows "sample_base_waveform st 3 t = - amp_tra st + 4 * amp_tra st * (t * fre_tra st)"
proof -
  have "t < 1 / fre_tra st" using f t by (simp add: field_simps)
  with t(1) have "fmodf t (1 / fre_tra st) = t" by (rule fmodf_small)
  then have pos: "fmodf t (1 / fre_tra st) / (1 / fre_tra st) = t * fre_tra st" by simp
  have "t * fre_tra st < 1 / 2" using f t(2) by (simp add: field_simps)
  with tri_formula [OF f, of t] show ?thesis by (simp only: pos if_True)
qed

lemma tri_rising_next:
  assumes f: "0 < fre_tra st" and t: "1 / fre_tra st \<le> t" "t < 1 / fre_tra st + 1 / fre_tra st / 2"
  shows "sample_base_waveform st 3 t = - amp_tra st + 4 * amp_tra st * ((t - 1 / fre_tra st) * fre_tra st)"
proof -
  have "0 < 1 / fre_tra st" using f by simp
  moreover have "t < 2 * (1 / fre_tra st)" using f t by (simp add: field_simps)
  ultimately have "fmodf t (1 / fre_tra st) = t - 1 / fre_tra st" using t(1)
    by (intro fmodf_second_period) 
  then have pos: "fmodf t (1 / fre_tra st) / (1 / fre_tra st) = (t - 1 / fre_tra st) * fre_tra st"
    by simp
  have "(t - 1 / fre_tra st) * fre_tra st < 1 / 2" using f t(2) by (simp add: field_simps)
  with tri_formula [OF f, of t] show ?thesis by (simp only: pos if_True)
qed

lemma tri_limit_end:
  assumes f: "0 < fre_tra st"
  shows "((\<lambda>t. sample_base_waveform st 3 t) \<longlongrightarrow> - amp_tra st) (at_left (1 / fre_tra st))"
proof -
  let ?T = "1 / fre_tra st" and ?a = "amp_tra st"
  have lin: "((\<lambda>t. 3 * ?a - 4 * ?a * (t * fre_tra st)) \<longlongrightarrow> 3 * ?a - 4 * ?a * (?T * fre_tra st)) (at_left ?T)"
    by (intro tendsto_intros)
  have "?T / 2 < ?T" using f by (simp add: field_simps)
  then have ev: "eventually (\<lambda>t. 3 * ?a - 4 * ?a * (t * fre_tra st) = sample_base_waveform st 3 t) (at_left ?T)"
    unfolding eventually_at_left_field
    by (intro exI [of _ "?T / 2"]) (auto simp: tri_falling [OF f])
  have "((\<lambda>t. sample_base_waveform st 3 t) \<longlongrightarrow> 3 * ?a - 4 * ?a * (?T * fre_tra st)) (at_left ?T)"
    using lin ev by (rule Lim_transform_eventually)
  then show ?thesis using f by simp
qed

lemma tri_limit_end_right:
  assumes f: "0 < fre_tra st"
  shows "((\<lambda>t. sample_base_waveform st 3 t) \<longlongrightarrow> - amp_tra st) (at_right (1 / fre_tra st))"
proof -
  let ?T = "1 / fre_tra st" and ?a = "amp_tra st"
  have lin: "((\<lambda>t. - ?a + 4 * ?a * ((t - ?T) * fre_tra st)) \<longlongrightarrow> - ?a + 4 * ?a * ((?T - ?T) * fre_tra st)) (at_right ?T)"
    by (intro tendsto_intros)
  have "?T < ?T + ?T / 2" using f by (simp add: field_simps)
  then have ev: "eventually (\<lambda>t. - ?a + 4 * ?a * ((t - ?T) * fre_tra st) = sample_base_waveform st 3 t) (at_right ?T)"
    unfolding eventually_at_right_field
    by (intro exI [of _ "?T + ?T / 2"]) (auto simp: tri_rising_next [OF f])
  have "((\<lambda>t. sample_base_waveform st 3 t) \<longlongrightarrow> - ?a + 4 * ?a * ((?T - ?T) * fre_tra st)) (at_right ?T)"
    using lin ev by (rule Lim_transform_eventually)
  then show ?thesis by simp
qed

lemma tri_limit_mid:
  assumes f: "0 < fre_tra st"
  shows "((\<lambda>t. sample_base_waveform st 3 t) \<longlongrightarrow> amp_tra st) (at_left (1 / fre_tra st / 2))"
proof -
  let ?T = "1 / fre_tra st" and ?a = "amp_tra st"
  have lin: "((\<lambda>t. - ?a + 4 * ?a * (t * fre_tra st)) \<longlongrightarrow> - ?a + 4 * ?a * (?T / 2 * fre_tra st)) (at_left (?T / 2))"
    by (intro tendsto_intros)
  have "0 < ?T / 2" using f by simp
  then have ev: "eventually (\<lambda>t. - ?a + 4 * ?a * (t * fre_tra st) = sample_base_waveform st 3 t) (at_left (?T / 2))"
    unfolding eventually_at_left_field
    by (intro exI [of _ 0]) (auto simp: tri_rising [OF f])
  have "((\<lambda>t. sample_base_waveform st 3 t) \<longlongrightarrow> - ?a + 4 * ?a * (?T / 2 * fre_tra st)) (at_left (?T / 2))"
    using lin ev by (rule Lim_transform_eventually)
  then show ?thesis using f by simp
qed

lemma tri_limit_mid_right:
  assumes f: "0 < fre_tra st"
  shows "((\<lambda>t. sample_base_waveform st 3 t) \<longlongrightarrow> amp_tra st) (at_right (1 / fre_tra st / 2))"
proof -
  let ?T = "1 / fre_tra st" and ?a = "amp_tra st"
  have lin: "((\<lambda>t. 3 * ?a - 4 * ?a * (t * fre_tra st)) \<longlongrightarrow> 3 * ?a - 4 * ?a * (?T / 2 * fre_tra st)) (at_right (?T / 2))"
    by (intro tendsto_intros)
  have "?T / 2 < ?T" using f by (simp add: field_simps)
  then have ev: "eventually (\<lambda>t. 3 * ?a - 4 * ?a * (t * fre_tra st) = sample_base_waveform st 3 t) (at_right (?T / 2))"
    unfolding eventually_at_right_field
    by (intro exI [of _ "?T"]) (auto simp: tri_falling [OF f])
  have "((\<lambda>t. sample_base_waveform st 3 t) \<longlongrightarrow> 3 * ?a - 4 * ?a * (?T / 2 * fre_tra st)) (at_right (?T / 2))"
    using lin ev by (rule Lim_transform_eventually)
  then show ?thesis using f by simp
qed

lemma tri_values:
  assumes f: "0 < fre_tra st"
  shows "sample_base_waveform st 3 0 = - amp_tra st" "sample_base_waveform st 3 (1 / fre_tra st / 2) = amp_tra st"
   "sample_base_waveform st 3 (1 / fre_tra st) = - amp_tra st"
  using tri_rising [OF f, of 0] tri_falling [OF f, of "1 / fre_tra st / 2"] tri_rising_next [OF f, of "1 / fre_tra st"] f
  by (simp_all add: field_simps)

lemma tri_pos_limit_end:
  assumes f: "0 < fre_tra st"
  shows "((\<lambda>t. fmodf t (1 / fre_tra st) / (1 / fre_tra st)) \<longlongrightarrow> 1) (at_left (1 / fre_tra st))"
proof -
  let ?T = "1 / fre_tra st"
  have lin: "((\<lambda>t. t / ?T) \<longlongrightarrow> ?T / ?T) (at_left ?T)"
    using f by (intro tendsto_intros) simp
  have "0 < ?T" using f by simp
  then have ev: "eventually (\<lambda>t. t / ?T = fmodf t ?T / ?T) (at_left ?T)"
    unfolding eventually_at_left_field
    by (intro exI [of _ 0]) (auto simp: fmodf_small)
  have "((\<lambda>t. fmodf t ?T / ?T) \<longlongrightarrow> ?T / ?T) (at_left ?T)"
    using lin ev by (rule Lim_transform_eventually)
  then show ?thesis using f by simp
qed

text \<open>
  Claim C8. For the triangle wave with frequency \<open>> 0\<close>, \<open>T = 1 / frequency\<close> and
  \<open>pos = fmodf t T / T\<close>: the sample follows \<open>-amp + 4 * amp * pos\<close> where \<open>pos < 0.5\<close>
  and \<open>3 * amp - 4 * amp * pos\<close> where \<open>pos \<ge> 0.5\<close>; it is \<open>-amp\<close> at \<open>pos = 0\<close> and
  \<open>+amp\<close> at \<open>pos = 0.5\<close>; as \<open>t\<close> tends to \<open>T\<close> from below, \<open>pos\<close> tends to 1 and
  the sample tends to \<open>-amp\<close>; and the sample is continuous as a function of time at
  \<open>t = T / 2\<close> (where \<open>pos = 0.5\<close>) and at \<open>t = T\<close> (where \<open>pos\<close> wraps to 0).
\<close>

theorem triangle_wave_shape:
  assumes f: "0 < fre_tra st"
  shows "(\<forall>t. sample_base_waveform st 3 t =
              (if fmodf t (1 / fre_tra st) / (1 / fre_tra st) < 0.5
               then - amp_tra st + 4 * amp_tra st * (fmodf t (1 / fre_tra st) / (1 / fre_tra st))
               else 3 * amp_tra st - 4 * amp_tra st * (fmodf t (1 / fre_tra st) / (1 / fre_tra st)))) \<and>
         (\<forall>t. fmodf t (1 / fre_tra st) / (1 / fre_tra st) = 0 \<longrightarrow>
              sample_base_waveform st 3 t = - amp_tra st) \<and>
         (\<forall>t. fmodf t (1 / fre_tra st) / (1 / fre_tra st) = 0.5 \<longrightarrow>
              sample_base_waveform st 3 t = amp_tra st) \<and>
         ((\<lambda>t. fmodf t (1 / fre_tra st) / (1 / fre_tra st)) \<longlongrightarrow> 1) (at_left (1 / fre_tra st)) \<and>
         ((\<lambda>t. sample_base_waveform st 3 t) \<longlongrightarrow> - amp_tra st) (at_left (1 / fre_tra st)) \<and>
         fmodf (1 / fre_tra st / 2) (1 / fre_tra st) / (1 / fre_tra st) = 0.5 \<and>
         isCont (sample_base_waveform st 3) (1 / fre_tra st / 2) \<and>
         fmodf (1 / fre_tra st) (1 / fre_tra st) / (1 / fre_tra st) = 0 \<and>
         isCont (sample_base_waveform st 3) (1 / fre_tra st)"
proof -
  let ?T = "1 / fre_tra st" and ?a = "amp_tra st"
  have T: "0 < ?T" using f by simp
  have c1: "\<forall>t. sample_base_waveform st 3 t =
              (if fmodf t ?T / ?T < 0.5
               then - ?a + 4 * ?a * (fmodf t ?T / ?T)
               else 3 * ?a - 4 * ?a * (fmodf t ?T / ?T))"
    using tri_formula [OF f] by simp
  have c2: "\<forall>t. fmodf t ?T / ?T = 0 \<longrightarrow> sample_base_waveform st 3 t = - ?a"
    using tri_of_pos [OF f, of _ 0] by simp
  have c3: "\<forall>t. fmodf t ?T / ?T = 0.5 \<longrightarrow> sample_base_waveform st 3 t = ?a"
    using tri_of_pos [OF f, of _ "1 / 2"] by simp
  have "0 \<le> ?T / 2" "?T / 2 < ?T" using f by (simp_all add: field_simps)
  then have "fmodf (?T / 2) ?T = ?T / 2" by (rule fmodf_small)
  then have c6: "fmodf (?T / 2) ?T / ?T = 0.5" using f by simp
  have "?T < 2 * ?T" using T by linarith
  with T have "fmodf ?T ?T = ?T - ?T" by (intro fmodf_second_period) simp_all
  then have c8: "fmodf ?T ?T / ?T = 0" by simp
  have c7: "isCont (sample_base_waveform st 3) (?T / 2)"
    unfolding isCont_def tri_values(2) [OF f]
    using tri_limit_mid [OF f] tri_limit_mid_right [OF f] by (rule filterlim_split_at)
  have c9: "isCont (sample_base_waveform st 3) ?T"
    unfolding isCont_def tri_values(3) [OF f]
    using tri_limit_end [OF f] tri_limit_end_right [OF f] by (rule filterlim_split_at)
  from c1 c2 c3 tri_pos_limit_end [OF f] tri_limit_end [OF f] c6 c7 c8 c9
  show ?thesis by (intro conjI)
qed

theorem triangle_wave_shape_witness:
  "0 < fre_tra initial_state \<and>
   sample_base_waveform initial_state 3 0 = - 1 \<and>
   sample_base_waveform initial_state 3 (1 / 2) = 1 \<and>
   ((\<lambda>t. sample_base_waveform initial_state 3 t) \<longlongrightarrow> - 1) (at_left 1) \<and>
   isCont (sample_base_waveform initial_state 3) (1 / 2) \<and>
   isCont (sample_base_waveform initial_state 3) 1"
proof -
  have f: "0 < fre_tra initial_state" by (simp add: initial_state_def)
  have T: "1 / fre_tra initial_state = 1" and a: "amp_tra initial_state = 1"
    by (simp_all add: initial_state_def)
  have p0: "fmodf 0 (1 / fre_tra initial_state) / (1 / fre_tra initial_state) = 0"
    by (simp add: fmodf_def int_cast_def)
  have p1: "fmodf (1 / 2) (1 / fre_tra initial_state) / (1 / fre_tra initial_state) = 0.5"
    by (simp add: fmodf_def int_cast_def T)
  note th = triangle_wave_shape [OF f]
  have "sample_base_waveform initial_state 3 0 = - amp_tra initial_state"
    using th p0 by blast
  moreover have "sample_base_waveform initial_state 3 (1 / 2) = amp_tra initial_state"
    using th p1 by blast
  moreover have "((\<lambda>t. sample_base_waveform initial_state 3 t) \<longlongrightarrow> - amp_tra initial_state)
      (at_left (1 / fre_tra initial_state))"
    using th by blast
  moreover have "isCont (sample_base_waveform initial_state 3) (1 / fre_tra initial_state / 2)"
    using th by blast
  moreover have "isCont (sample_base_waveform initial_state 3) (1 / fre_tra initial_state)"
    using th by blast
  ultimately show ?thesis using f by (simp only: T a) 
qed

section \<open>Properties of the modulation routines\<close>

lemma period_of_pos: "0 < period_of fc"
  by (simp add: period_of_def)



lemma xnorm_value:
  "xnorm st waveform_type t =
     Some (if amp_base st waveform_type = 0 then 0
           else sample_base_waveform st waveform_type t / amp_base st waveform_type)"
  by (simp add: xnorm_def float_div_def Let_def)



lemma nth_map_upt0: "i < n \<Longrightarrow> map f [0..<n] ! i = f i"
  by simp

lemma routine_time_frac:
  assumes "i < n"
  shows "fmodf (real i * (period_of f / real n)) (period_of f) / period_of f = real i / real n"
proof (cases "f > 0")
  case True
  with assms show ?thesis using sample_time_pos [of f i n] by (simp add: period_of_def)
next
  case False
  with assms show ?thesis using sample_time_pos [of 1 i n] by (simp add: period_of_def)
qed


lemma FM_body_value:
  "xnorm st waveform_type t = Some v \<Longrightarrow>
   FM_body st waveform_type Ac fc beta t = Some (Ac * sin (2 * pi * fc * t + beta * v))"
  by (simp add: FM_body_def Let_def)

lemma PWM_body_value:
  "xnorm st waveform_type t = Some v \<Longrightarrow>
   PWM_body st waveform_type fpwm Ac t =
     Some (if v > - 1 + 2 * (fmodf t (period_of fpwm) / period_of fpwm) then Ac else - Ac)"
  by (simp add: PWM_body_def Let_def)


lemma run_FM_rows:
  "i < 8 \<Longrightarrow> fst (run_FM st waveform_type Ac fc beta) ! i =
     (real i * (period_of fc / 8), FM_body st waveform_type Ac fc beta (real i * (period_of fc / 8)))"
  "i < 100 \<Longrightarrow> fst (snd (run_FM st waveform_type Ac fc beta)) ! i =
     FM_body st waveform_type Ac fc beta (real i * (period_of fc / 100))"
  by (simp_all only: run_FM_def Let_def TABLE_SAMPLES_def DEFAULT_SAMPLES_def fst_conv snd_conv
        of_nat_numeral nth_map_upt0)

lemma run_PWM_rows:
  "i < 8 \<Longrightarrow> fst (run_PWM st waveform_type fpwm Ac) ! i =
     (real i * (period_of fpwm / 8), PWM_body st waveform_type fpwm Ac (real i * (period_of fpwm / 8)))"
  "i < 100 \<Longrightarrow> fst (snd (run_PWM st waveform_type fpwm Ac)) ! i =
     PWM_body st waveform_type fpwm Ac (real i * (period_of fpwm / 100))"
  by (simp_all only: run_PWM_def Let_def TABLE_SAMPLES_def DEFAULT_SAMPLES_def fst_conv snd_conv
        of_nat_numeral nth_map_upt0)




text \<open>
  Claim C6. For every time \<open>t\<close> the FM output is
  \<open>Ac * sin (2 * pi * fc * t + beta * normalized_base t)\<close>, with the normalized base
  value the guarded quotient of the base sample at the same \<open>t\<close>: the phase is computed
  pointwise from the current sample, nothing is accumulated from one sample to the next.
  The 8 table rows and the 100 plot values of \<open>run_FM\<close> are this formula at the times
  \<open>i * (period / 8)\<close> and \<open>i * (period / 100)\<close>.
\<close>

theorem fm_pointwise_formula:
  "FM_body st waveform_type Ac fc beta t =
     Some (Ac * sin (2 * pi * fc * t +
               beta * (if amp_base st waveform_type = 0 then 0
                       else sample_base_waveform st waveform_type t / amp_base st waveform_type))) \<and>
   length (fst (run_FM st waveform_type Ac fc beta)) = 8 \<and>
   length (fst (snd (run_FM st waveform_type Ac fc beta))) = 100 \<and>
   (\<forall>i<8. fst (run_FM st waveform_type Ac fc beta) ! i =
       (real i * (period_of fc / 8),
        Some (Ac * sin (2 * pi * fc * (real i * (period_of fc / 8)) +
                  beta * (if amp_base st waveform_type = 0 then 0
                          else sample_base_waveform st waveform_type (real i * (period_of fc / 8)) /
                               amp_base st waveform_type))))) \<and>
   (\<forall>i<100. fst (snd (run_FM st waveform_type Ac fc beta)) ! i =
        Some (Ac * sin (2 * pi * fc * (real i * (period_of fc / 100)) +
                  beta * (if amp_base st waveform_type = 0 then 0
                          else sample_base_waveform st waveform_type (real i * (period_of fc / 100)) /
                               amp_base st waveform_type))))"
proof -
  have a: "FM_body st waveform_type Ac fc beta t =
     Some (Ac * sin (2 * pi * fc * t +
               beta * (if amp_base st waveform_type = 0 then 0
                       else sample_base_waveform st waveform_type t / amp_base st waveform_type)))"
    for t
    using xnorm_value by (rule FM_body_value)
  have e: "length (fst (run_FM st waveform_type Ac fc beta)) = 8"
     "length (fst (snd (run_FM st waveform_type Ac fc beta))) = 100"
    by (simp_all add: run_FM_def TABLE_SAMPLES_def DEFAULT_SAMPLES_def Let_def)
  have c: "\<forall>i<8. fst (run_FM st waveform_type Ac fc beta) ! i =
       (real i * (period_of fc / 8),
        Some (Ac * sin (2 * pi * fc * (real i * (period_of fc / 8)) +
                  beta * (if amp_base st waveform_type = 0 then 0
                          else sample_base_waveform st waveform_type (real i * (period_of fc / 8)) /
                               amp_base st waveform_type))))"
  proof (intro allI impI)
    fix i :: nat assume i: "i < 8"
    show "fst (run_FM st waveform_type Ac fc beta) ! i =
       (real i * (period_of fc / 8),
        Some (Ac * sin (2 * pi * fc * (real i * (period_of fc / 8)) +
                  beta * (if amp_base st waveform_type = 0 then 0
                          else sample_base_waveform st waveform_type (real i * (period_of fc / 8)) /
                               amp_base st waveform_type))))"
      by (simp only: run_FM_rows(1) [OF i] a)
  qed
  have d: "\<forall>i<100. fst (snd (run_FM st waveform_type Ac fc beta)) ! i =
        Some (Ac * sin (2 * pi * fc * (real i * (period_of fc / 100)) +
                  beta * (if amp_base st waveform_type = 0 then 0
                          else sample_base_waveform st waveform_type (real i * (period_of fc / 100)) /
                               amp_base st waveform_type)))"
  proof (intro allI impI)
    fix i :: nat assume i: "i < 100"
    show "fst (snd (run_FM st waveform_type Ac fc beta)) ! i =
        Some (Ac * sin (2 * pi * fc * (real i * (period_of fc / 100)) +
                  beta * (if amp_base st waveform_type = 0 then 0
                          else sample_base_waveform st waveform_type (real i * (period_of fc / 100)) /
                               amp_base st waveform_type)))"
      by (simp only: run_FM_rows(2) [OF i] a)
  qed
  from a [of t] e c d show ?thesis by (intro conjI)
qed

theorem fm_pointwise_formula_witness:
  "(3::nat) < 8 \<and>
   fst (run_FM initial_state 1 2 1 (1 / 2)) ! 3 =
     (3 * (1 / 8),
      Some (2 * sin (2 * pi * 1 * (3 * (1 / 8)) + 1 / 2 * sin (2 * pi * 1 * (3 * (1 / 8)) + 0))))"
proof -
  have p: "period_of 1 = 1" by (simp add: period_of_def)
  have x: "(if amp_base initial_state 1 = 0 then 0
            else sample_base_waveform initial_state 1 t / amp_base initial_state 1) =
           sin (2 * pi * 1 * t + 0)" for t
    by (simp add: amp_base_def sample_base_waveform_def initial_state_def)
  have "(3::nat) < 8" by simp
  moreover from fm_pointwise_formula [of initial_state 1 2 1 "1 / 2" 0]
  have "fst (run_FM initial_state 1 2 1 (1 / 2)) ! 3 =
       (real 3 * (period_of 1 / 8),
        Some (2 * sin (2 * pi * 1 * (real 3 * (period_of 1 / 8)) +
                  1 / 2 * (if amp_base initial_state 1 = 0 then 0
                          else sample_base_waveform initial_state 1 (real 3 * (period_of 1 / 8)) /
                               amp_base initial_state 1))))"
    using \<open>(3::nat) < 8\<close> by blast
  ultimately show ?thesis by (simp only: p x of_nat_numeral)
qed

text \<open>
  Claim C7. For every time \<open>t\<close> the PWM output is \<open>+Ac\<close> when
  \<open>normalized_base t > -1 + 2 * (fmodf t period / period)\<close> and \<open>-Ac\<close> otherwise, where
  \<open>period = 1 / fpwm\<close> when \<open>fpwm > 0\<close> and \<open>period = 1\<close> when \<open>fpwm \<le> 0\<close>; \<open>run_PWM\<close>
  always returns its 8 table rows and 100 plot values, and at its \<open>i\<close>-th of \<open>n\<close> sample
  times the reference is \<open>-1 + 2 * (i / n)\<close>.
\<close>

theorem pwm_comparator_formula:
  "PWM_body st waveform_type fpwm Ac t =
     Some (if (if amp_base st waveform_type = 0 then 0
               else sample_base_waveform st waveform_type t / amp_base st waveform_type) >
           - 1 + 2 * (fmodf t (if fpwm > 0 then 1 / fpwm else 1) / (if fpwm > 0 then 1 / fpwm else 1))
      then Ac else - Ac) \<and>
   (fpwm \<le> 0 \<longrightarrow> period_of fpwm = 1) \<and>
   length (fst (run_PWM st waveform_type fpwm Ac)) = 8 \<and>
   length (fst (snd (run_PWM st waveform_type fpwm Ac))) = 100 \<and>
   (\<forall>i<8. fst (run_PWM st waveform_type fpwm Ac) ! i =
       (real i * (period_of fpwm / 8),
        Some (if (if amp_base st waveform_type = 0 then 0
                  else sample_base_waveform st waveform_type (real i * (period_of fpwm / 8)) /
                       amp_base st waveform_type) > - 1 + 2 * (real i / 8)
              then Ac else - Ac))) \<and>
   (\<forall>i<100. fst (snd (run_PWM st waveform_type fpwm Ac)) ! i =
        Some (if (if amp_base st waveform_type = 0 then 0
                  else sample_base_waveform st waveform_type (real i * (period_of fpwm / 100)) /
                       amp_base st waveform_type) > - 1 + 2 * (real i / 100)
              then Ac else - Ac))"
proof -
  have a: "PWM_body st waveform_type fpwm Ac t =
     Some (if (if amp_base st waveform_type = 0 then 0
               else sample_base_waveform st waveform_type t / amp_base st waveform_type) >
           - 1 + 2 * (fmodf t (if fpwm > 0 then 1 / fpwm else 1) / (if fpwm > 0 then 1 / fpwm else 1))
      then Ac else - Ac)"
    using PWM_body_value [OF xnorm_value, where t = t and fpwm = fpwm and Ac = Ac]
    by (simp only: period_of_def)
  have b: "PWM_body st waveform_type fpwm Ac (real i * (period_of fpwm / real n)) =
      Some (if (if amp_base st waveform_type = 0 then 0
                else sample_base_waveform st waveform_type (real i * (period_of fpwm / real n)) /
                     amp_base st waveform_type) > - 1 + 2 * (real i / real n)
            then Ac else - Ac)" if "i < n" for i n :: nat
    using PWM_body_value [OF xnorm_value,
        where t = "real i * (period_of fpwm / real n)" and fpwm = fpwm and Ac = Ac]
    by (simp only: routine_time_frac [OF that])
  have c: "\<forall>i<8. fst (run_PWM st waveform_type fpwm Ac) ! i =
       (real i * (period_of fpwm / 8),
        Some (if (if amp_base st waveform_type = 0 then 0
                  else sample_base_waveform st waveform_type (real i * (period_of fpwm / 8)) /
                       amp_base st waveform_type) > - 1 + 2 * (real i / 8)
              then Ac else - Ac))"
  proof (intro allI impI)
    fix i :: nat assume i: "i < 8"
    show "fst (run_PWM st waveform_type fpwm Ac) ! i =
       (real i * (period_of fpwm / 8),
        Some (if (if amp_base st waveform_type = 0 then 0
                  else sample_base_waveform st waveform_type (real i * (period_of fpwm / 8)) /
                       amp_base st waveform_type) > - 1 + 2 * (real i / 8)
              then Ac else - Ac))"
      by (simp only: run_PWM_rows(1) [OF i] b [OF i, unfolded of_nat_numeral])
  qed
  have d: "\<forall>i<100. fst (snd (run_PWM st waveform_type fpwm Ac)) ! i =
        Some (if (if amp_base st waveform_type = 0 then 0
                  else sample_base_waveform st waveform_type (real i * (period_of fpwm / 100)) /
                       amp_base st waveform_type) > - 1 + 2 * (real i / 100)
              then Ac else - Ac)"
  proof (intro allI impI)
    fix i :: nat assume i: "i < 100"
    show "fst (snd (run_PWM st waveform_type fpwm Ac)) ! i =
        Some (if (if amp_base st waveform_type = 0 then 0
                  else sample_base_waveform st waveform_type (real i * (period_of fpwm / 100)) /
                       amp_base st waveform_type) > - 1 + 2 * (real i / 100)
              then Ac else - Ac)"
      by (simp only: run_PWM_rows(2) [OF i] b [OF i, unfolded of_nat_numeral])
  qed
  have e: "length (fst (run_PWM st waveform_type fpwm Ac)) = 8"
     "length (fst (snd (run_PWM st waveform_type fpwm Ac))) = 100"
    by (simp_all add: run_PWM_def TABLE_SAMPLES_def DEFAULT_SAMPLES_def Let_def)
  have f: "fpwm \<le> 0 \<longrightarrow> period_of fpwm = 1" by (simp add: period_of_def)
  from a f e c d show ?thesis by (intro conjI)
qed

theorem pwm_comparator_formula_witness:
  "(0::real) \<le> 0 \<and> period_of 0 = 1 \<and> (2::nat) < 8 \<and>
   fst (run_PWM initial_state 2 0 5) ! 2 = (2 * (1 / 8), Some 5) \<and>
   fst (run_PWM initial_state 2 0 5) ! 6 = (6 * (1 / 8), Some (- 5))"
proof -
  note th = pwm_comparator_formula [of initial_state 2 0 5 0]
  have p: "period_of 0 = 1" using th by blast
  have x2: "(if amp_base initial_state 2 = 0 then 0
             else sample_base_waveform initial_state 2 (real 2 * (1 / 8)) / amp_base initial_state 2) = 1"
    by (simp add: amp_base_def sample_base_waveform_def initial_state_def fmodf_def int_cast_def)
  have x6: "(if amp_base initial_state 2 = 0 then 0
             else sample_base_waveform initial_state 2 (real 6 * (1 / 8)) / amp_base initial_state 2) = - 1"
    by (simp add: amp_base_def sample_base_waveform_def initial_state_def fmodf_def int_cast_def)
  have "fst (run_PWM initial_state 2 0 5) ! 2 =
       (real 2 * (period_of 0 / 8),
        Some (if (if amp_base initial_state 2 = 0 then 0
                  else sample_base_waveform initial_state 2 (real 2 * (period_of 0 / 8)) /
                       amp_base initial_state 2) > - 1 + 2 * (real 2 / 8)
              then 5 else - 5))"
    using th by simp
  then have r2: "fst (run_PWM initial_state 2 0 5) ! 2 = (2 * (1 / 8), Some 5)"
    unfolding p x2 by simp
  have "fst (run_PWM initial_state 2 0 5) ! 6 =
       (real 6 * (period_of 0 / 8),
        Some (if (if amp_base initial_state 2 = 0 then 0
                  else sample_base_waveform initial_state 2 (real 6 * (period_of 0 / 8)) /
                       amp_base initial_state 2) > - 1 + 2 * (real 6 / 8)
              then 5 else - 5))"
    using th by simp
  then have r6: "fst (run_PWM initial_state 2 0 5) ! 6 = (6 * (1 / 8), Some (- 5))"
    unfolding p x6 by simp
  from p r2 r6 show ?thesis by simp
qed

section \<open>Properties of the sine display\<close>

text \<open>
  Over the reals the shifted phase-free sine of the plot loop has the value that the
  table's formula, with the phase in the angle, has at the unshifted time.
\<close>

lemma time_shift_reconstructs_phase:
  assumes "f \<noteq> 0"
  shows "sin (2 * pi * f * (x + ph / (2 * pi * f))) = sin (2 * pi * f * x + ph)"
proof -
  have "2 * pi * f * (x + ph / (2 * pi * f)) = 2 * pi * f * x + ph"
    using assms by (simp add: field_simps)
  then show ?thesis by simp
qed



text \<open>Without the plot buffer only the table is produced.\<close>

lemma sine_plot_malloc_failure:
  "0 < fre_sin st \<Longrightarrow> \<exists>table. sine_plot False st = Inl (Malloc_yval_failed table) \<and> length table = 8"
  by (simp add: sine_plot_def TABLE_SAMPLES_def Let_def)

section \<open>Properties of the renderer\<close>

lemma value_row_zero_amp: "value_row 21 0 y = 10"
  by (simp add: value_row_def int_cast_def)

lemma mid_row_zero_amp: "mid_row 21 0 = 0"
  by (simp add: mid_row_def int_cast_def)

lemma mid_row_nonzero_amp: "amp \<noteq> 0 \<Longrightarrow> mid_row 21 amp = 10"
  by (simp add: mid_row_def int_cast_def)

lemma value_row_range: "0 < rows \<Longrightarrow> 0 \<le> value_row rows amp y \<and> value_row rows amp y < rows"
  by (simp add: value_row_def Let_def)

lemma mid_row_range: "0 < rows \<Longrightarrow> 0 \<le> mid_row rows amp \<and> mid_row rows amp < rows"
  by (simp add: mid_row_def Let_def)

lemma set_cell_dims: "map length (set_cell canvas r c ch) = map length canvas"
proof (cases "r < length canvas")
  case True
  then show ?thesis by (simp add: set_cell_def map_update list_update_same_conv)
next
  case False
  then have "length canvas \<le> r" by simp
  then show ?thesis by (simp add: set_cell_def list_update_beyond)
qed

lemma plot_columns_dims: "map length (plot_columns rows amp ys c canvas) = map length canvas"
  by (induction ys arbitrary: c canvas) (simp_all add: set_cell_dims)

lemma draw_axis_dims: "map length (draw_axis r canvas) = map length canvas"
proof (cases "r < length canvas")
  case True
  then show ?thesis by (simp add: draw_axis_def map_update list_update_same_conv)
next
  case False
  then have "length canvas \<le> r" by simp
  then show ?thesis by (simp add: draw_axis_def list_update_beyond)
qed

lemma blank_canvas_dims: "map length (blank_canvas rows cols) = replicate (nat rows) (nat cols)"
  by (simp add: blank_canvas_def)

lemma plot_columns_flat:
  assumes "\<forall>y\<in>set ys. nat (value_row rows amp y) = r"
    and "r < length canvas" and "c + length ys \<le> length (canvas ! r)"
  shows "plot_columns rows amp ys c canvas =
    canvas[r := take c (canvas ! r) @ replicate (length ys) CHR ''*'' @ drop (c + length ys) (canvas ! r)]"
  using assms
proof (induction ys arbitrary: c canvas)
  case Nil
  then show ?case by simp
next
  case (Cons y ys)
  let ?row = "canvas ! r"
  let ?canvas' = "set_cell canvas r c CHR ''*''"
  have c: "c < length ?row" using Cons.prems(3) by simp
  have r': "?canvas' ! r = ?row[c := CHR ''*'']" using Cons.prems(2) by (simp add: set_cell_def)
  have len: "r < length ?canvas'" using Cons.prems(2) by (simp add: set_cell_def)
  have fits: "Suc c + length ys \<le> length (?canvas' ! r)" using Cons.prems(3) r' by simp
  have rows: "\<forall>y\<in>set ys. nat (value_row rows amp y) = r" using Cons.prems(1) by simp
  have y: "nat (value_row rows amp y) = r" using Cons.prems(1) by simp
  have "plot_columns rows amp (y # ys) c canvas = plot_columns rows amp ys (Suc c) ?canvas'"
    by (simp add: y)
  also have "\<dots> = ?canvas'[r := take (Suc c) (?canvas' ! r) @ replicate (length ys) CHR ''*'' @
      drop (Suc c + length ys) (?canvas' ! r)]"
    using rows len fits by (rule Cons.IH)
  also have "take (Suc c) (?canvas' ! r) = take c ?row @ [CHR ''*'']"
    unfolding r' using c by (simp add: take_Suc_conv_app_nth)
  also have "drop (Suc c + length ys) (?canvas' ! r) = drop (c + length (y # ys)) ?row"
    unfolding r' by simp
  also have "?canvas'[r := (take c ?row @ [CHR ''*'']) @ replicate (length ys) CHR ''*'' @
      drop (c + length (y # ys)) ?row] =
      canvas[r := take c ?row @ replicate (length (y # ys)) CHR ''*'' @ drop (c + length (y # ys)) ?row]"
    by (simp add: set_cell_def)
  finally show ?case .
qed

lemma render_zero_amp:
  assumes "length ys = 100"
  shows "print_ascii_from_yvals (\<lambda>k. True) (Some ys) 100 ASCII_ROWS 0 =
     Printed (replicate 100 CHR ''-'' # replicate 9 (replicate 100 CHR '' '') @
       replicate 100 CHR ''*'' # replicate 10 (replicate 100 CHR '' ''))"
proof -
  let ?blank = "replicate 100 CHR '' ''"
  have canvas: "blank_canvas 21 100 = replicate 21 ?blank" by (simp add: blank_canvas_def)
  have "plot_columns 21 0 ys 0 (replicate 21 ?blank) =
      (replicate 21 ?blank)[10 := take 0 (replicate 21 ?blank ! 10) @ replicate (length ys) CHR ''*'' @
         drop (0 + length ys) (replicate 21 ?blank ! 10)]"
    by (rule plot_columns_flat) (simp_all add: value_row_zero_amp assms)
  then have plot: "plot_columns 21 0 ys 0 (replicate 21 ?blank) =
      (replicate 21 ?blank)[10 := replicate 100 CHR ''*'']"
    by (simp add: assms)
  have split: "(replicate 21 ?blank)[10 := replicate 100 CHR ''*''] =
      replicate 10 ?blank @ replicate 100 CHR ''*'' # replicate 10 ?blank"
    by (simp add: eval_nat_numeral)
  have "print_ascii_from_yvals (\<lambda>k. True) (Some ys) 100 ASCII_ROWS 0 =
      Printed (draw_axis 0 (replicate 10 ?blank @ replicate 100 CHR ''*'' # replicate 10 ?blank))"
    by (simp add: print_ascii_from_yvals_def ASCII_ROWS_def assms list_all_iff canvas plot split
          mid_row_zero_amp)
  also have "draw_axis 0 (replicate 10 ?blank @ replicate 100 CHR ''*'' # replicate 10 ?blank) =
      replicate 100 CHR ''-'' # replicate 9 ?blank @ replicate 100 CHR ''*'' # replicate 10 ?blank"
    by (simp add: draw_axis_def eval_nat_numeral)
  finally show ?thesis .
qed


text \<open>
  A failed allocation is the only outcome the renderer reports: \<^verbatim>\<open>perror\<close> names the
  allocation and the call returns without printing.
\<close>

lemma render_malloc_failure:
  "print_ascii_from_yvals (\<lambda>k. False) (Some [0]) 1 2 1 = Perror ''malloc canvas'' \<and>
   print_ascii_from_yvals (\<lambda>k. k < 2) (Some [0]) 1 2 1 = Perror ''malloc canvas[r]''"
  by (simp add: print_ascii_from_yvals_def upt_rec)

text \<open>A Sine of amplitude 0 hands 100 zero values to the renderer.\<close>

lemma sine_plot_zero_amplitude:
  "\<exists>table plot. sine_plot True (initial_state\<lparr>amp_sin := 0\<rparr>) = Inr (table, plot) \<and>
     sine_yval plot = replicate 100 0"
  by (simp add: sine_plot_def sine_yval_def initial_state_def DEFAULT_SAMPLES_def Let_def
        comp_def map_replicate_const)

text \<open>
  Claim C3. In the renderer with 21 rows the axis row is row 10 for every nonzero \<open>amp\<close>
  (\<open>mid_row_nonzero_amp\<close>), and for \<open>amp = 0\<close> every value is drawn on row 10
  (\<open>value_row_zero_amp\<close>); the claim adds that for \<open>amp = 0\<close> the trace coincides with
  the reference row. The code does not do that: the initialiser of \<^verbatim>\<open>mid_row\<close> guards only
  the denominator, so for \<open>amp = 0\<close> its fraction is \<open>0 / 2 = 0\<close>, not \<open>0.5\<close>, and the axis
  row is row 0. Evaluated at the call that \<open>sine_plot\<close> makes for a Sine of amplitude 0
  (100 zero values, 100 columns, 21 rows, \<open>amp = 0\<close>): the dashes fill row 0 and the
  stars fill row 10.
\<close>

theorem axis_row_zero_amplitude:
  "mid_row ASCII_ROWS 0 = 0 \<and> value_row ASCII_ROWS 0 0 = 10 \<and>
   print_ascii_from_yvals (\<lambda>k. True) (Some (replicate 100 0)) 100 ASCII_ROWS 0 =
     Printed (replicate 100 CHR ''-'' # replicate 9 (replicate 100 CHR '' '') @
       replicate 100 CHR ''*'' # replicate 10 (replicate 100 CHR '' ''))"
  using render_zero_amp [of "replicate 100 0"]
  by (simp add: ASCII_ROWS_def mid_row_zero_amp value_row_zero_amp)

text \<open>
  Claim C9, as amended. When the value pointer is null, or \<open>cols \<le> 0\<close>, or \<open>rows \<le> 0\<close>,
  the renderer returns at once and silently: no grid is printed and no error is
  reported. When the input is well formed (at least \<open>cols\<close> values, \<open>cols > 0\<close>,
  \<open>rows > 0\<close>) and the allocations succeed, it prints a grid of exactly \<open>rows\<close> lines of
  \<open>cols\<close> characters.
\<close>

theorem render_outcomes:
  "(yvals = None \<or> cols \<le> 0 \<or> rows \<le> 0 \<longrightarrow>
      print_ascii_from_yvals malloc_ok yvals cols rows amp = Returned_silently) \<and>
   (yvals = Some ys \<and> 0 < cols \<and> 0 < rows \<and> nat cols \<le> length ys \<and>
    (\<forall>k \<le> nat rows. malloc_ok k) \<longrightarrow>
      (\<exists>canvas. print_ascii_from_yvals malloc_ok yvals cols rows amp = Printed canvas \<and>
         length canvas = nat rows \<and> (\<forall>line \<in> set canvas. length line = nat cols)))"
proof (intro conjI impI)
  assume "yvals = None \<or> cols \<le> 0 \<or> rows \<le> 0"
  then show "print_ascii_from_yvals malloc_ok yvals cols rows amp = Returned_silently"
    by (auto simp add: print_ascii_from_yvals_def split: option.splits)
next
  assume a: "yvals = Some ys \<and> 0 < cols \<and> 0 < rows \<and> nat cols \<le> length ys \<and>
    (\<forall>k \<le> nat rows. malloc_ok k)"
  let ?canvas = "draw_axis (nat (mid_row rows amp))
      (plot_columns rows amp (take (nat cols) ys) 0 (blank_canvas rows cols))"
  have m: "malloc_ok 0" "list_all (\<lambda>r. malloc_ok (Suc r)) [0..<nat rows]"
    using a by (auto simp add: list_all_iff)
  have run: "print_ascii_from_yvals malloc_ok yvals cols rows amp = Printed ?canvas"
    using a m by (simp add: print_ascii_from_yvals_def)
  have dims: "map length ?canvas = replicate (nat rows) (nat cols)"
    by (simp only: draw_axis_dims plot_columns_dims blank_canvas_dims)
  have "length ?canvas = nat rows"
    using arg_cong [OF dims, of length] by simp
  moreover have "\<forall>line \<in> set ?canvas. length line = nat cols"
  proof
    fix line assume "line \<in> set ?canvas"
    then have "length line \<in> set (map length ?canvas)" by simp
    then show "length line = nat cols" unfolding dims by simp
  qed
  ultimately show "\<exists>canvas. print_ascii_from_yvals malloc_ok yvals cols rows amp = Printed canvas \<and>
         length canvas = nat rows \<and> (\<forall>line \<in> set canvas. length line = nat cols)"
    using run by blast
qed

theorem render_outcomes_witness:
  "(\<exists>canvas. print_ascii_from_yvals (\<lambda>k. True) (Some [1, 0, - 1]) 3 3 1 = Printed canvas \<and>
      length canvas = 3 \<and> (\<forall>line \<in> set canvas. length line = 3)) \<and>
   print_ascii_from_yvals (\<lambda>k. True) (Some [1, 0, - 1]) 0 3 1 = Returned_silently"
proof -
  have wf: "Some [1, 0, - 1] = Some [1, 0, - 1 :: real] \<and> (0::int) < 3 \<and> (0::int) < 3 \<and>
      nat 3 \<le> length [1, 0, - 1 :: real] \<and> (\<forall>k \<le> nat 3. (\<lambda>k. True) k)"
    by simp
  have mal: "Some [1, 0, - 1 :: real] = None \<or> (0::int) \<le> 0 \<or> (3::int) \<le> 0" by simp
  from render_outcomes [where yvals = "Some [1, 0, - 1]" and ys = "[1, 0, - 1]" and cols = 3 and rows = 3
      and malloc_ok = "\<lambda>k. True" and amp = 1] wf
  have "\<exists>canvas. print_ascii_from_yvals (\<lambda>k. True) (Some [1, 0, - 1]) 3 3 1 = Printed canvas \<and>
      length canvas = nat 3 \<and> (\<forall>line \<in> set canvas. length line = nat 3)"
    by blast
  moreover from render_outcomes [where yvals = "Some [1, 0, - 1]" and ys = "[1, 0, - 1]" and cols = 0 and rows = 3
      and malloc_ok = "\<lambda>k. True" and amp = 1] mal
  have "print_ascii_from_yvals (\<lambda>k. True) (Some [1, 0, - 1]) 0 3 1 = Returned_silently"
    by blast
  ultimately show ?thesis by simp
qed

text \<open>
  The claim C9 as stated is false where it promises a clear error: for the null pointer,
  for \<open>cols = 0\<close> and for \<open>rows = 0\<close> the call is \<open>Returned_silently\<close>, the outcome with
  no output at all, not \<open>Perror\<close>.
\<close>

theorem render_malformed_silent_counterexample:
  "print_ascii_from_yvals (\<lambda>k. True) None 100 21 1 = Returned_silently \<and>
   print_ascii_from_yvals (\<lambda>k. True) (Some []) 0 21 1 = Returned_silently \<and>
   print_ascii_from_yvals (\<lambda>k. True) (Some [0]) 1 0 1 = Returned_silently"
  by (simp add: print_ascii_from_yvals_def)

end
